theory Spec2Isabelle
  imports Main "HOL-Library.Word"
begin

unbundle bit_operations_syntax

section \<open>The metadata record of src/metadata.js\<close>

text \<open>
  The development embeds \<^verbatim>\<open>src/metadata.js\<close>: the linkage message and hash, the
  verification and decoding of a response, the freeze of a value, and the three queued
  operations of a record (create, update, fetch) with the promise chain that runs them
  one at a time.

  The functions that metadata.js calls but does not define (Buffer, JSON, WalletCrypto,
  bitcoinjs-lib, the HTTP fetch of the runtime, the API root) are the fields of an
  environment record; every definition of the file takes that environment, and the
  theorems hold for every environment unless they say otherwise.
\<close>

subsection \<open>Values\<close>

text \<open>A Buffer is a list of bytes.\<close>

type_synonym bytes = "8 word list"

text \<open>
  A JavaScript value that JSON can represent. Arrays and objects carry the flag that
  \<^verbatim>\<open>Object.freeze\<close> sets on an object; an object keeps its properties in order.
\<close>

datatype jsval =
    JNull
  | JBool bool
  | JNum int
  | JStr string
  | JArr bool "jsval list"
  | JObj bool "(string \<times> jsval) list"

text \<open>What a rejected promise or a thrown exception carries.\<close>

datatype error =
    METADATA_CONNECT_ERROR string
  | ResponseText string
  | SyntaxError
  | TypeError
  | LibraryError
  | METADATA_SIGNATURE_VERIFICATION_ERROR
  | METADATA_FETCH_FAILED

datatype http_method = GET | PUT

text \<open>
  The object a GET answers with, as \<^verbatim>\<open>verifyResponse\<close> and
  \<^verbatim>\<open>extractResponse\<close> read it: three properties holding strings, each of which may
  be missing.
\<close>

record envelope =
  payload :: "string option"
  signature :: "string option"
  prev_magic_hash :: "string option"

text \<open>\<^verbatim>\<open>R.assoc('compute_new_magic_hash', ..., res)\<close>: the response with one more property.\<close>

record verified_envelope = envelope +
  compute_new_magic_hash :: bytes

text \<open>What \<^verbatim>\<open>response.json()\<close> gives: a rejection, the value null, or an object.\<close>

datatype json_body = NotJson | JsonNull | JsonObject envelope

record http_response =
  status :: int
  body_text :: string
  body_json :: json_body

text \<open>The promise of \<^verbatim>\<open>fetch(url, options)\<close>: rejected, or resolved with a response.\<close>

datatype fetch_outcome = Rejected string | Resolved http_response

text \<open>The url and the options object that \<^verbatim>\<open>Metadata.request\<close> hands to fetch.\<close>

record http_request =
  url :: string
  headers :: "(string \<times> string) list"
  credentials :: string
  body :: "string option"
  http_verb :: http_method

text \<open>
  What a job did that can be seen from outside the record: a message handed to
  \<^verbatim>\<open>Metadata.sign\<close>, and a call of \<^verbatim>\<open>Metadata.request\<close> with its method,
  endpoint and data.
\<close>

datatype effect = Signed string | Sent http_method string "jsval option"

subsection \<open>The environment\<close>

text \<open>
  \<open>'k\<close> is an ECPair of bitcoinjs-lib, \<open>'w\<close> the state of everything outside the
  record (the server, the network, the random source of the cipher).
  \<^item> \<open>sign\<close>, \<open>verify\<close>, \<open>decryptDataWithKey\<close>, \<open>JSON_parse\<close> give \<open>None\<close> where the
    library throws;
  \<^item> \<open>encryptDataWithKey\<close> and \<open>window_fetch\<close> read and change the outside state.
\<close>

record ('k, 'w) env =
  API_ROOT_URL :: string
  toString_base64 :: "bytes \<Rightarrow> string"
  from_base64 :: "string \<Rightarrow> bytes"
  toString_hex :: "bytes \<Rightarrow> string"
  from_hex :: "string \<Rightarrow> bytes"
  toString_utf8 :: "bytes \<Rightarrow> string"
  from_utf8 :: "string \<Rightarrow> bytes"
  JSON_stringify :: "jsval \<Rightarrow> string"
  JSON_parse :: "string \<Rightarrow> jsval option"
  sha256 :: "bytes \<Rightarrow> bytes"
  encryptDataWithKey :: "string \<Rightarrow> bytes \<Rightarrow> 'w \<Rightarrow> string option \<times> 'w"
  decryptDataWithKey :: "string \<Rightarrow> bytes \<Rightarrow> string option"
  message_magicHash :: "string \<Rightarrow> bytes"
  message_sign :: "'k \<Rightarrow> string \<Rightarrow> bytes option"
  message_verify :: "string \<Rightarrow> bytes option \<Rightarrow> string \<Rightarrow> bool option"
  getAddress :: "'k \<Rightarrow> string"
  window_fetch :: "http_request \<Rightarrow> 'w \<Rightarrow> fetch_outcome \<times> 'w"

subsection \<open>The record\<close>

text \<open>
  The three functions that \<^verbatim>\<open>next\<close> is given: the body of create with its frozen
  payload, the resolved promise of an update that changes nothing, and the body of fetch.
\<close>

datatype job = CreateJob jsval | ResolveJob jsval | FetchJob

text \<open>
  \<open>sequence\<close> is the promise chain \<^verbatim>\<open>_sequence\<close>: the jobs that were handed to
  \<^verbatim>\<open>next\<close> and have not run yet, oldest first. \<open>value'\<close> is \<^verbatim>\<open>_value\<close>, which
  the constructor leaves undefined (\<open>None\<close>).
\<close>

record 'k metadata =
  VERSION :: int
  typeId :: int
  magicHash :: "bytes option"
  address :: string
  signKey :: 'k
  encKeyBuffer :: "bytes option"
  value' :: "jsval option"
  sequence :: "job list"

text \<open>
  \<^verbatim>\<open>typeId || -1\<close>: an absent, null or zero argument gives -1.
\<close>

definition new_Metadata ::
  "('k, 'w) env \<Rightarrow> 'k \<Rightarrow> bytes option \<Rightarrow> int option \<Rightarrow> 'k metadata" where
  "new_Metadata env ecPair encKey tid =
     \<lparr> VERSION = 1,
       typeId = (case tid of None \<Rightarrow> - 1 | Some n \<Rightarrow> if n = 0 then - 1 else n),
       magicHash = None,
       address = getAddress env ecPair,
       signKey = ecPair,
       encKeyBuffer = encKey,
       value' = None,
       sequence = [] \<rparr>"

text \<open>\<^verbatim>\<open>Boolean(this._magicHash)\<close>: every Buffer is truthy, null is not.\<close>

definition existsOnServer :: "'k metadata \<Rightarrow> bool" where
  "existsOnServer r = (magicHash r \<noteq> None)"

subsection \<open>The linkage message and hash\<close>

text \<open>\<^verbatim>\<open>Metadata.message\<close>: a Buffer is truthy, so the test is on null alone.\<close>

definition message :: "('k, 'w) env \<Rightarrow> bytes \<Rightarrow> bytes option \<Rightarrow> string" where
  "message env payload_buf prevMagic =
     (case prevMagic of
        Some pm \<Rightarrow> toString_base64 env (pm @ sha256 env payload_buf)
      | None \<Rightarrow> toString_base64 env payload_buf)"

definition magic :: "('k, 'w) env \<Rightarrow> bytes \<Rightarrow> bytes option \<Rightarrow> bytes" where
  "magic env payload_buf prevMagic = message_magicHash env (message env payload_buf prevMagic)"

definition computeSignature ::
  "('k, 'w) env \<Rightarrow> 'k \<Rightarrow> bytes \<Rightarrow> bytes option \<Rightarrow> bytes option" where
  "computeSignature env key payloadBuff mh = message_sign env key (message env payloadBuff mh)"

subsection \<open>Reading a response\<close>

text \<open>
  \<^verbatim>\<open>res.signature ? Buffer.from(res.signature, 'base64') : undefined\<close>: a missing
  property and the empty string are falsy.
\<close>

definition truthy :: "string option \<Rightarrow> string option" where
  "truthy p = (case p of None \<Rightarrow> None | Some s \<Rightarrow> if s = [] then None else Some s)"

text \<open>
  \<^verbatim>\<open>Metadata.verifyResponse\<close>. The argument \<^verbatim>\<open>M.message(pB, mB)\<close> is evaluated
  before verify is called; with \<^verbatim>\<open>pB\<close> undefined it throws a TypeError
  (\<^verbatim>\<open>undefined.toString\<close>, or the hash given undefined).
\<close>

definition verifyResponse ::
  "('k, 'w) env \<Rightarrow> string \<Rightarrow> envelope option \<Rightarrow> error + verified_envelope option" where
  "verifyResponse env addr res =
     (case res of
        None \<Rightarrow> Inr None
      | Some r \<Rightarrow>
          (let sB = map_option (from_base64 env) (truthy (signature r));
               pB = map_option (from_base64 env) (truthy (payload r));
               mB = map_option (from_hex env) (truthy (prev_magic_hash r))
           in case pB of
                None \<Rightarrow> Inl TypeError
              | Some p \<Rightarrow>
                  (case message_verify env addr sB (message env p mB) of
                     None \<Rightarrow> Inl LibraryError
                   | Some verified \<Rightarrow>
                       if \<not> verified then Inl METADATA_SIGNATURE_VERIFICATION_ERROR
                       else Inr (Some \<lparr> payload = payload r, signature = signature r,
                                        prev_magic_hash = prev_magic_hash r,
                                        compute_new_magic_hash = magic env p mB \<rparr>))))"

definition parse_json :: "('k, 'w) env \<Rightarrow> string \<Rightarrow> error + jsval" where
  "parse_json env s = (case JSON_parse env s of None \<Rightarrow> Inl SyntaxError | Some v \<Rightarrow> Inr v)"

text \<open>
  \<^verbatim>\<open>Metadata.extractResponse\<close>: null stays null; otherwise the payload property is
  decrypted with the key when there is one, read as base64 and UTF-8 when there is
  none, and parsed. A missing payload is a TypeError in both branches: \<^verbatim>\<open>Buffer.from\<close>
  throws it, and the cipher, given undefined, is taken to throw it too.
\<close>

definition extractResponse ::
  "('k, 'w) env \<Rightarrow> bytes option \<Rightarrow> 'z envelope_scheme option \<Rightarrow> error + jsval" where
  "extractResponse env encKey res =
     (case res of
        None \<Rightarrow> Inr JNull
      | Some r \<Rightarrow>
          (case payload r of
             None \<Rightarrow> Inl TypeError
           | Some p \<Rightarrow>
               (case encKey of
                  Some k \<Rightarrow>
                    (case decryptDataWithKey env p k of
                       None \<Rightarrow> Inl LibraryError
                     | Some s \<Rightarrow> parse_json env s)
                | None \<Rightarrow> parse_json env (toString_utf8 env (from_base64 env p)))))"

subsection \<open>Freezing a value\<close>

text \<open>\<^verbatim>\<open>Object.freeze\<close> marks the object it is given, and nothing below it.\<close>

fun Object_freeze :: "jsval \<Rightarrow> jsval" where
  "Object_freeze (JArr _ xs) = JArr True xs"
| "Object_freeze (JObj _ kvs) = JObj True kvs"
| "Object_freeze v = v"

text \<open>\<^verbatim>\<open>Metadata.toImmutable = R.compose(Object.freeze, JSON.parse, JSON.stringify)\<close>.\<close>

definition toImmutable :: "('k, 'w) env \<Rightarrow> jsval \<Rightarrow> error + jsval" where
  "toImmutable env v =
     (case parse_json env (JSON_stringify env v) of
        Inl e \<Rightarrow> Inl e
      | Inr x \<Rightarrow> Inr (Object_freeze x))"

subsection \<open>The transport\<close>

definition checkStatus :: "http_method \<Rightarrow> http_response \<Rightarrow> error + envelope option" where
  "checkStatus m response =
     (if 200 \<le> status response \<and> status response < 300 then
        (case body_json response of
           NotJson \<Rightarrow> Inl SyntaxError
         | JsonNull \<Rightarrow> Inr None
         | JsonObject e \<Rightarrow> Inr (Some e))
      else if m = GET \<and> status response = 404 then Inr None
      else Inl (ResponseText (body_text response)))"

text \<open>The url and the options that \<^verbatim>\<open>Metadata.request\<close> builds.\<close>

definition fetch_options ::
  "('k, 'w) env \<Rightarrow> http_method \<Rightarrow> string \<Rightarrow> jsval option \<Rightarrow> http_request" where
  "fetch_options env m endpoint data =
     \<lparr> url = API_ROOT_URL env @ ''metadata/'' @ endpoint,
       headers = [(''Content-Type'', ''application/json'')],
       credentials = ''omit'',
       body = (if m \<noteq> GET then map_option (JSON_stringify env) data else None),
       http_verb = m \<rparr>"

definition request ::
  "('k, 'w) env \<Rightarrow> http_method \<Rightarrow> string \<Rightarrow> jsval option \<Rightarrow> 'w
     \<Rightarrow> (error + envelope option) \<times> 'w" where
  "request env m endpoint data w =
     (case window_fetch env (fetch_options env m endpoint data) w of
        (Rejected e, w') \<Rightarrow> (Inl (METADATA_CONNECT_ERROR e), w')
      | (Resolved response, w') \<Rightarrow> (checkStatus m response, w'))"

subsection \<open>The jobs\<close>

text \<open>The encoded payload of create: encrypted when the record has a key.\<close>

definition encPayloadBuffer ::
  "('k, 'w) env \<Rightarrow> bytes option \<Rightarrow> jsval \<Rightarrow> 'w \<Rightarrow> (error + bytes) \<times> 'w" where
  "encPayloadBuffer env encKey p w =
     (case encKey of
        Some k \<Rightarrow>
          (case encryptDataWithKey env (JSON_stringify env p) k w of
             (None, w') \<Rightarrow> (Inl LibraryError, w')
           | (Some c, w') \<Rightarrow> (Inr (from_base64 env c), w'))
      | None \<Rightarrow> (Inr (from_utf8 env (JSON_stringify env p)), w))"

text \<open>The object \<^verbatim>\<open>body\<close> that create sends.\<close>

definition create_body :: "('k, 'w) env \<Rightarrow> 'k metadata \<Rightarrow> bytes \<Rightarrow> bytes \<Rightarrow> jsval" where
  "create_body env r enc sig =
     JObj False
       [(''version'', JNum (VERSION r)),
        (''payload'', JStr (toString_base64 env enc)),
        (''signature'', JStr (toString_base64 env sig)),
        (''prev_magic_hash'',
           (case magicHash r of Some h \<Rightarrow> JStr (toString_hex env h) | None \<Rightarrow> JNull)),
        (''type_id'', JNum (typeId r))]"

text \<open>
  A job gives the promise's outcome, the record, the outside state and what it did.
  The function that create hands to \<^verbatim>\<open>next\<close>:
\<close>

definition create_job ::
  "('k, 'w) env \<Rightarrow> jsval \<Rightarrow> 'k metadata \<Rightarrow> 'w
     \<Rightarrow> (error + jsval) \<times> 'k metadata \<times> 'w \<times> effect list" where
  "create_job env p r w =
     (case encPayloadBuffer env (encKeyBuffer r) p w of
        (Inl e, w1) \<Rightarrow> (Inl e, r, w1, [])
      | (Inr enc, w1) \<Rightarrow>
          (let signed = Signed (message env enc (magicHash r))
           in case computeSignature env (signKey r) enc (magicHash r) of
                None \<Rightarrow> (Inl LibraryError, r, w1, [signed])
              | Some sig \<Rightarrow>
                  (let b = create_body env r enc sig;
                       sent = Sent PUT (address r) (Some b)
                   in case request env PUT (address r) (Some b) w1 of
                        (Inl e, w2) \<Rightarrow> (Inl e, r, w2, [signed, sent])
                      | (Inr response, w2) \<Rightarrow>
                          (Inr p,
                           r\<lparr> value' := Some p,
                              magicHash := Some (magic env enc (magicHash r)) \<rparr>,
                           w2, [signed, sent]))))"

text \<open>The two savers of fetch, and the function that fetch hands to \<^verbatim>\<open>next\<close>.\<close>

definition saveMagicHash :: "verified_envelope option \<Rightarrow> 'k metadata \<Rightarrow> 'k metadata" where
  "saveMagicHash res r =
     (case res of None \<Rightarrow> r | Some v \<Rightarrow> r\<lparr> magicHash := Some (compute_new_magic_hash v) \<rparr>)"

definition saveValue :: "('k, 'w) env \<Rightarrow> jsval \<Rightarrow> 'k metadata \<Rightarrow> error + 'k metadata" where
  "saveValue env res r =
     (if res = JNull then Inr r
      else case toImmutable env res of
             Inl e \<Rightarrow> Inl e
           | Inr v \<Rightarrow> Inr (r\<lparr> value' := Some v \<rparr>))"

definition fetch_job ::
  "('k, 'w) env \<Rightarrow> 'k metadata \<Rightarrow> 'w
     \<Rightarrow> (error + jsval) \<times> 'k metadata \<times> 'w \<times> effect list" where
  "fetch_job env r w =
     (let sent = Sent GET (address r) None
      in case request env GET (address r) None w of
           (Inl e, w1) \<Rightarrow> (Inl METADATA_FETCH_FAILED, r, w1, [sent])
         | (Inr res, w1) \<Rightarrow>
             (case verifyResponse env (address r) res of
                Inl e \<Rightarrow> (Inl METADATA_FETCH_FAILED, r, w1, [sent])
              | Inr vres \<Rightarrow>
                  (let r1 = saveMagicHash vres r
                   in case extractResponse env (encKeyBuffer r) vres of
                        Inl e \<Rightarrow> (Inl METADATA_FETCH_FAILED, r1, w1, [sent])
                      | Inr v \<Rightarrow>
                          (case saveValue env v r1 of
                             Inl e \<Rightarrow> (Inl METADATA_FETCH_FAILED, r1, w1, [sent])
                           | Inr r2 \<Rightarrow> (Inr v, r2, w1, [sent])))))"

fun run_job ::
  "('k, 'w) env \<Rightarrow> job \<Rightarrow> 'k metadata \<Rightarrow> 'w
     \<Rightarrow> (error + jsval) \<times> 'k metadata \<times> 'w \<times> effect list" where
  "run_job env (CreateJob p) r w = create_job env p r w"
| "run_job env (ResolveJob p) r w = (toImmutable env p, r, w, [])"
| "run_job env FetchJob r w = fetch_job env r w"

subsection \<open>The queue\<close>

text \<open>
  \<^verbatim>\<open>Metadata.prototype.next\<close> chains \<open>f\<close> behind \<^verbatim>\<open>_sequence\<close>, and the new
  \<^verbatim>\<open>_sequence\<close> resolves whether \<open>f\<close> succeeds or fails: \<open>f\<close> is appended to the
  pending jobs, and a failed job does not stop the ones behind it.
\<close>

definition next_job :: "job \<Rightarrow> 'k metadata \<Rightarrow> 'k metadata" where
  "next_job f r = r\<lparr> sequence := sequence r @ [f] \<rparr>"

text \<open>
  The three calls. create freezes its argument before it queues the job, so a value
  that does not survive the freeze is thrown to the caller and nothing is queued;
  update compares the serializations when it is called.
\<close>

definition create :: "('k, 'w) env \<Rightarrow> jsval \<Rightarrow> 'k metadata \<Rightarrow> error + 'k metadata" where
  "create env v r =
     (case toImmutable env v of
        Inl e \<Rightarrow> Inl e
      | Inr p \<Rightarrow> Inr (next_job (CreateJob p) r))"

definition update :: "('k, 'w) env \<Rightarrow> jsval \<Rightarrow> 'k metadata \<Rightarrow> error + 'k metadata" where
  "update env v r =
     (if Some (JSON_stringify env v) = map_option (JSON_stringify env) (value' r)
      then Inr (next_job (ResolveJob v) r)
      else create env v r)"

definition fetch :: "'k metadata \<Rightarrow> 'k metadata" where
  "fetch r = next_job FetchJob r"

text \<open>
  The promise chain at work: the pending jobs run oldest first, each from the record and
  the outside state that the one before it left. The outcomes are those of the promises
  that the calls returned, in the order of the calls.
\<close>

fun run_jobs ::
  "('k, 'w) env \<Rightarrow> job list \<Rightarrow> 'k metadata \<Rightarrow> 'w
     \<Rightarrow> (error + jsval) list \<times> 'k metadata \<times> 'w \<times> effect list" where
  "run_jobs env [] r w = ([], r, w, [])"
| "run_jobs env (j # js) r w =
     (case run_job env j r w of
        (res, r1, w1, t1) \<Rightarrow>
          (case run_jobs env js r1 w1 of
             (rs, r2, w2, t2) \<Rightarrow> (res # rs, r2, w2, t1 @ t2)))"

definition settle ::
  "('k, 'w) env \<Rightarrow> 'k metadata \<Rightarrow> 'w
     \<Rightarrow> (error + jsval) list \<times> 'k metadata \<times> 'w \<times> effect list" where
  "settle env r w = run_jobs env (sequence r) (r\<lparr> sequence := [] \<rparr>) w"


subsection \<open>Key derivation\<close>

text \<open>
  \<^verbatim>\<open>Metadata.fromMetadataHDNode\<close>: \<open>deriveHardened\<close>, the key pair of a node and the
  bytes of its private key come from bitcoinjs-lib. The type id is passed on to the
  constructor as it is.
\<close>

record ('n, 'k) hd_api =
  deriveHardened :: "'n \<Rightarrow> int \<Rightarrow> 'n"
  keyPair :: "'n \<Rightarrow> 'k"
  d_toBuffer :: "'k \<Rightarrow> bytes"

definition fromMetadataHDNode ::
  "('k, 'w) env \<Rightarrow> ('n, 'k) hd_api \<Rightarrow> 'n \<Rightarrow> int \<Rightarrow> 'k metadata" where
  "fromMetadataHDNode env api metadataHDNode tid =
     (let payloadTypeNode = deriveHardened api metadataHDNode tid;
          node = deriveHardened api payloadTypeNode 0;
          privateKeyBuffer = d_toBuffer api (keyPair api (deriveHardened api payloadTypeNode 1));
          encryptionKey = sha256 env privateKeyBuffer
      in new_Metadata env (keyPair api node) (Some encryptionKey) (Some tid))"

subsection \<open>Observations\<close>

text \<open>The test that \<^verbatim>\<open>verifyResponse\<close> makes on a response that is not null.\<close>

definition signature_verifies :: "('k, 'w) env \<Rightarrow> string \<Rightarrow> envelope \<Rightarrow> bool" where
  "signature_verifies env addr r =
     (case map_option (from_base64 env) (truthy (payload r)) of
        None \<Rightarrow> False
      | Some p \<Rightarrow>
          message_verify env addr (map_option (from_base64 env) (truthy (signature r)))
            (message env p (map_option (from_hex env) (truthy (prev_magic_hash r)))) = Some True)"






text \<open>
  Equality of JavaScript values by content: \<open>thaw\<close> forgets which objects are frozen.
\<close>

fun thaw :: "jsval \<Rightarrow> jsval" where
  "thaw (JArr _ xs) = JArr False (map thaw xs)"
| "thaw (JObj _ kvs) = JObj False (map (\<lambda>(k, v). (k, thaw v)) kvs)"
| "thaw v = v"

text \<open>A value is deeply frozen when every array and object in it is frozen.\<close>

fun deep_frozen :: "jsval \<Rightarrow> bool" where
  "deep_frozen (JArr fr xs) = (fr \<and> list_all deep_frozen xs)"
| "deep_frozen (JObj fr kvs) = (fr \<and> list_all (\<lambda>(k, v). deep_frozen v) kvs)"
| "deep_frozen v = True"

text \<open>
  The assignment \<^verbatim>\<open>v.k1.k2 ... kn = x\<close> in strict mode, along the properties of
  objects. It throws a TypeError when the object that owns the last property is frozen,
  and when the path meets a primitive value or a property that is not there; otherwise
  the result is the value as it reads afterwards. An object on the way may be frozen:
  the assignment changes the object below it. Paths through arrays are left out
  (\<open>None\<close>), as is the empty path.
\<close>

definition set_prop :: "string \<Rightarrow> jsval \<Rightarrow> (string \<times> jsval) list \<Rightarrow> (string \<times> jsval) list" where
  "set_prop k x kvs =
     (if map_of kvs k = None then kvs @ [(k, x)]
      else map (\<lambda>(k', v). if k' = k then (k', x) else (k', v)) kvs)"

fun assign :: "string list \<Rightarrow> jsval \<Rightarrow> jsval \<Rightarrow> (error + jsval) option" where
  "assign [] x v = None"
| "assign (k # ks) x (JArr fr xs) = None"
| "assign [k] x (JObj fr kvs) =
     (if fr then Some (Inl TypeError) else Some (Inr (JObj fr (set_prop k x kvs))))"
| "assign (k # k' # ks) x (JObj fr kvs) =
     (case map_of kvs k of
        None \<Rightarrow> Some (Inl TypeError)
      | Some c \<Rightarrow>
          (case assign (k' # ks) x c of
             None \<Rightarrow> None
           | Some (Inl e) \<Rightarrow> Some (Inl e)
           | Some (Inr c') \<Rightarrow> Some (Inr (JObj fr (set_prop k c' kvs)))))"
| "assign (k # ks) x v = Some (Inl TypeError)"

section \<open>A small environment to run the model in\<close>

text \<open>
  An executable instance of the environment, for running the definitions above on
  concrete inputs. Base64 and hexadecimal are the Buffer encodings; JSON is the compact
  text that \<^verbatim>\<open>JSON.stringify\<close> writes, over integers and ASCII strings. The digest,
  the cipher and the signature are small stand-ins with the interface of the libraries
  (a two-byte checksum, an exclusive-or stream under the key, a keyed checksum): they are
  not SHA-256, AES or ECDSA. The network is a script: the outcomes of the calls of
  fetch that are still to come.
\<close>

subsection \<open>Buffer encodings\<close>

definition b64_alphabet :: string where
  "b64_alphabet = ''ABCDEFGHIJKLMNOPQRSTUVWXYZabcdefghijklmnopqrstuvwxyz0123456789+/''"

definition b64_char :: "nat \<Rightarrow> char" where
  "b64_char n = b64_alphabet ! n"

fun b64_encode :: "nat list \<Rightarrow> string" where
  "b64_encode [] = []"
| "b64_encode [a] = [b64_char (a div 4), b64_char (a mod 4 * 16), CHR ''='', CHR ''='']"
| "b64_encode [a, b] =
     [b64_char (a div 4), b64_char (a mod 4 * 16 + b div 16), b64_char (b mod 16 * 4), CHR ''='']"
| "b64_encode (a # b # c # r) =
     b64_char (a div 4) # b64_char (a mod 4 * 16 + b div 16)
       # b64_char (b mod 16 * 4 + c div 64) # b64_char (c mod 64) # b64_encode r"

definition ref_toString_base64 :: "bytes \<Rightarrow> string" where
  "ref_toString_base64 bs = b64_encode (map unat bs)"

text \<open>
  Decoding reads the characters before the first \<open>=\<close>, skips those outside the two
  alphabets, and drops a last group that holds less than a byte.
\<close>

definition b64_value :: "char \<Rightarrow> nat option" where
  "b64_value c =
     (let n = (of_char c :: nat)
      in if 65 \<le> n \<and> n \<le> 90 then Some (n - 65)
         else if 97 \<le> n \<and> n \<le> 122 then Some (n - 71)
         else if 48 \<le> n \<and> n \<le> 57 then Some (n + 4)
         else if n = 43 \<or> n = 45 then Some 62
         else if n = 47 \<or> n = 95 then Some 63
         else None)"

fun b64_decode :: "nat list \<Rightarrow> nat list" where
  "b64_decode (a # b # c # d # r) =
     (a * 4 + b div 16) # (b mod 16 * 16 + c div 4) # (c mod 4 * 64 + d) # b64_decode r"
| "b64_decode [a, b, c] = [a * 4 + b div 16, b mod 16 * 16 + c div 4]"
| "b64_decode [a, b] = [a * 4 + b div 16]"
| "b64_decode _ = []"

definition ref_from_base64 :: "string \<Rightarrow> bytes" where
  "ref_from_base64 s =
     map of_nat (b64_decode (List.map_filter b64_value (takeWhile (\<lambda>c. c \<noteq> CHR ''='') s)))"

definition hex_char :: "nat \<Rightarrow> char" where
  "hex_char n = ''0123456789abcdef'' ! n"

definition ref_toString_hex :: "bytes \<Rightarrow> string" where
  "ref_toString_hex bs = concat (map (\<lambda>b. [hex_char (unat b div 16), hex_char (unat b mod 16)]) bs)"

definition hex_value :: "char \<Rightarrow> nat option" where
  "hex_value c =
     (let n = (of_char c :: nat)
      in if 48 \<le> n \<and> n \<le> 57 then Some (n - 48)
         else if 97 \<le> n \<and> n \<le> 102 then Some (n - 87)
         else if 65 \<le> n \<and> n \<le> 70 then Some (n - 55)
         else None)"

text \<open>Decoding stops at the first pair that is not two hexadecimal digits.\<close>

fun ref_from_hex :: "string \<Rightarrow> bytes" where
  "ref_from_hex (a # b # r) =
     (case (hex_value a, hex_value b) of
        (Some x, Some y) \<Rightarrow> of_nat (x * 16 + y) # ref_from_hex r
      | _ \<Rightarrow> [])"
| "ref_from_hex _ = []"

text \<open>Text is ASCII: one byte for each character.\<close>

definition ref_from_utf8 :: "string \<Rightarrow> bytes" where
  "ref_from_utf8 s = map (\<lambda>c. of_nat (of_char c)) s"

definition ref_toString_utf8 :: "bytes \<Rightarrow> string" where
  "ref_toString_utf8 bs = map (\<lambda>b. char_of (unat b)) bs"

subsection \<open>JSON\<close>

definition dquote :: char where
  "dquote = CHR 0x22"

definition bslash :: char where
  "bslash = CHR 0x5C"

fun show_nat :: "nat \<Rightarrow> string" where
  "show_nat n =
     (if n < 10 then [''0123456789'' ! n] else show_nat (n div 10) @ [''0123456789'' ! (n mod 10)])"

declare show_nat.simps [simp del]

definition show_int :: "int \<Rightarrow> string" where
  "show_int i = (if i < 0 then CHR ''-'' # show_nat (nat (- i)) else show_nat (nat i))"

definition quote :: "string \<Rightarrow> string" where
  "quote s =
     dquote # concat (map (\<lambda>c. if c = dquote \<or> c = bslash then [bslash, c] else [c]) s) @ [dquote]"

fun commas :: "string list \<Rightarrow> string" where
  "commas [] = []"
| "commas [x] = x"
| "commas (x # y # r) = x @ CHR '','' # commas (y # r)"

fun ref_stringify :: "jsval \<Rightarrow> string" where
  "ref_stringify JNull = ''null''"
| "ref_stringify (JBool b) = (if b then ''true'' else ''false'')"
| "ref_stringify (JNum i) = show_int i"
| "ref_stringify (JStr s) = quote s"
| "ref_stringify (JArr _ xs) = CHR ''['' # commas (map ref_stringify xs) @ '']''"
| "ref_stringify (JObj _ kvs) =
     CHR ''{'' # commas (map (\<lambda>(k, v). quote k @ CHR '':'' # ref_stringify v) kvs) @ ''}''"

text \<open>The body of a string, after its opening quote, and what follows it.\<close>

fun parse_string :: "string \<Rightarrow> (string \<times> string) option" where
  "parse_string [] = None"
| "parse_string (c # r) =
     (if c = dquote then Some ([], r)
      else if c = bslash then
        (case r of
           [] \<Rightarrow> None
         | e # r' \<Rightarrow>
             if e = dquote \<or> e = bslash \<or> e = CHR ''/''
             then map_option (apfst ((#) e)) (parse_string r') else None)
      else map_option (apfst ((#) c)) (parse_string r))"

definition is_digit :: "char \<Rightarrow> bool" where
  "is_digit c = (48 \<le> (of_char c :: nat) \<and> (of_char c :: nat) \<le> 57)"

definition digits_value :: "string \<Rightarrow> nat" where
  "digits_value ds = foldl (\<lambda>a c. 10 * a + (of_char c - 48)) 0 ds"

definition parse_nat :: "string \<Rightarrow> (nat \<times> string) option" where
  "parse_nat s =
     (if takeWhile is_digit s = [] then None
      else Some (digits_value (takeWhile is_digit s), dropWhile is_digit s))"

definition parse_number :: "string \<Rightarrow> (jsval \<times> string) option" where
  "parse_number s =
     (case s of
        [] \<Rightarrow> None
      | c # r \<Rightarrow>
          if c = CHR ''-'' then map_option (apfst (\<lambda>n. JNum (- int n))) (parse_nat r)
          else map_option (apfst (\<lambda>n. JNum (int n))) (parse_nat s))"

text \<open>
  A value at the head of the text and what follows it. The first argument bounds the
  depth of the calls; the length of the text is always enough.
\<close>

fun parse_value :: "nat \<Rightarrow> string \<Rightarrow> (jsval \<times> string) option"
  and parse_elems :: "nat \<Rightarrow> string \<Rightarrow> (jsval list \<times> string) option"
  and parse_members :: "nat \<Rightarrow> string \<Rightarrow> ((string \<times> jsval) list \<times> string) option" where
  "parse_value 0 s = None"
| "parse_value (Suc n) s =
     (if take 4 s = ''null'' then Some (JNull, drop 4 s)
      else if take 4 s = ''true'' then Some (JBool True, drop 4 s)
      else if take 5 s = ''false'' then Some (JBool False, drop 5 s)
      else if take 2 s = ''[]'' then Some (JArr False [], drop 2 s)
      else if take 2 s = ''{}'' then Some (JObj False [], drop 2 s)
      else if take 1 s = ''['' then map_option (apfst (JArr False)) (parse_elems n (drop 1 s))
      else if take 1 s = ''{'' then map_option (apfst (JObj False)) (parse_members n (drop 1 s))
      else if take 1 s = [dquote] then map_option (apfst JStr) (parse_string (drop 1 s))
      else parse_number s)"
| "parse_elems 0 s = None"
| "parse_elems (Suc n) s =
     (case parse_value n s of
        None \<Rightarrow> None
      | Some (v, r) \<Rightarrow>
          if take 1 r = '','' then map_option (apfst ((#) v)) (parse_elems n (drop 1 r))
          else if take 1 r = '']'' then Some ([v], drop 1 r)
          else None)"
| "parse_members 0 s = None"
| "parse_members (Suc n) s =
     (if take 1 s = [dquote] then
        (case parse_string (drop 1 s) of
           None \<Rightarrow> None
         | Some (k, r) \<Rightarrow>
             if take 1 r = '':'' then
               (case parse_value n (drop 1 r) of
                  None \<Rightarrow> None
                | Some (v, r') \<Rightarrow>
                    if take 1 r' = '',''
                    then map_option (apfst ((#) (k, v))) (parse_members n (drop 1 r'))
                    else if take 1 r' = ''}'' then Some ([(k, v)], drop 1 r')
                    else None)
             else None)
      else None)"

definition ref_parse :: "string \<Rightarrow> jsval option" where
  "ref_parse s = (case parse_value (length s) s of Some (v, []) \<Rightarrow> Some v | _ \<Rightarrow> None)"

subsection \<open>Digest, cipher, signature, network\<close>

text \<open>The digest: the sum of the bytes and their number, each modulo 256.\<close>

definition ref_sha256 :: "bytes \<Rightarrow> bytes" where
  "ref_sha256 bs = [foldr (+) bs 0, of_nat (length bs)]"

text \<open>
  The message hash of bitcoinjs-lib has this shape: the digest, twice, of the prefix of
  the network, the length of the message and the message.
\<close>

definition ref_magicHash :: "string \<Rightarrow> bytes" where
  "ref_magicHash msg =
     ref_sha256 (ref_sha256
       (ref_from_utf8 (CHR 0x18 # ''Bitcoin Signed Message:'' @ [CHR 0x0A])
          @ [of_nat (length msg)] @ ref_from_utf8 msg))"

text \<open>The cipher: every byte of the text exclusive-or the bytes of the key.\<close>

definition xor_key :: "bytes \<Rightarrow> bytes \<Rightarrow> bytes" where
  "xor_key k bs = map (\<lambda>b. b XOR foldr (XOR) k 0) bs"

definition ref_encrypt :: "string \<Rightarrow> bytes \<Rightarrow> 'w \<Rightarrow> string option \<times> 'w" where
  "ref_encrypt data k w = (Some (ref_toString_base64 (xor_key k (ref_from_utf8 data))), w)"

definition ref_decrypt :: "string \<Rightarrow> bytes \<Rightarrow> string option" where
  "ref_decrypt data k = Some (ref_toString_utf8 (xor_key k (ref_from_base64 data)))"

text \<open>
  A key pair is the address it signs for; a signature is the digest of the address and
  the message.
\<close>

definition ref_sign :: "string \<Rightarrow> string \<Rightarrow> bytes option" where
  "ref_sign k msg = Some (ref_sha256 (ref_from_utf8 (k @ msg)))"

definition ref_verify :: "string \<Rightarrow> bytes option \<Rightarrow> string \<Rightarrow> bool option" where
  "ref_verify addr sg msg = Some (sg = Some (ref_sha256 (ref_from_utf8 (addr @ msg))))"

text \<open>The network answers each call with the next outcome of the script.\<close>

definition ref_fetch :: "http_request \<Rightarrow> fetch_outcome list \<Rightarrow> fetch_outcome \<times> fetch_outcome list" where
  "ref_fetch req w = (case w of [] \<Rightarrow> (Rejected ''offline'', []) | x # xs \<Rightarrow> (x, xs))"

definition ref_env :: "(string, fetch_outcome list) env" where
  "ref_env =
     \<lparr> API_ROOT_URL = ''https://api.blockchain.info/'',
       toString_base64 = ref_toString_base64,
       from_base64 = ref_from_base64,
       toString_hex = ref_toString_hex,
       from_hex = ref_from_hex,
       toString_utf8 = ref_toString_utf8,
       from_utf8 = ref_from_utf8,
       JSON_stringify = ref_stringify,
       JSON_parse = ref_parse,
       sha256 = ref_sha256,
       encryptDataWithKey = ref_encrypt,
       decryptDataWithKey = ref_decrypt,
       message_magicHash = ref_magicHash,
       message_sign = ref_sign,
       message_verify = ref_verify,
       getAddress = (\<lambda>k. k),
       window_fetch = ref_fetch \<rparr>"


definition plain_record :: "string metadata" where
  "plain_record = new_Metadata ref_env ''1Meta'' None (Some 4)"

definition keyed_record :: "string metadata" where
  "keyed_record = new_Metadata ref_env ''1Meta'' (Some [7]) (Some 4)"


definition not_found :: http_response where
  "not_found = \<lparr> status = 404, body_text = ''Not Found'', body_json = NotJson \<rparr>"


definition written_record :: "string metadata" where
  "written_record = plain_record\<lparr> value' := Some (JObj True [(''a'', JNum 1)]),
                                  magicHash := Some [16, 2] \<rparr>"


section \<open>The claims\<close>

subsection \<open>The linkage message\<close>

text \<open>
  C1 (as the code has it). With a prior hash \<open>h\<close>, the linkage message of a payload
  \<open>p\<close> is the base64 text of \<open>h\<close> followed by the digest of \<open>p\<close>: the prior hash
  comes first, the digest of the payload second. Without a prior hash it is the base64
  text of \<open>p\<close> itself.
\<close>

theorem message_prior_then_digest:
  "message env p (Some h) = toString_base64 env (h @ sha256 env p)
   \<and> message env p None = toString_base64 env p"
  by (simp add: message_def)

text \<open>
  C1 as the specification states it, digest first and prior hash second, fails: for the
  payload of the one byte 1 and the prior hash of the one byte 2 the message is the
  base64 text of the bytes 2, 1, 1, and the stated one that of 1, 1, 2.
\<close>

theorem message_digest_first_counterexample:
  "message ref_env [1] (Some [2]) = ''AgEB''
   \<and> toString_base64 ref_env (sha256 ref_env [1] @ [2]) = ''AQEC''
   \<and> message ref_env [1] (Some [2]) \<noteq> toString_base64 ref_env (sha256 ref_env [1] @ [2])"
  by (simp add: message_def ref_env_def ref_sha256_def ref_toString_base64_def
      b64_char_def b64_alphabet_def)

subsection \<open>The type id of a new record\<close>

text \<open>
  C10. A record constructed with an absent or null type id, or with the type id 0, has
  the type id -1, and no argument gives a record whose type id is 0; so does the
  constructor from a node of the key tree, which passes its type id on.
\<close>

theorem typeId_never_zero:
  "typeId (new_Metadata env k e None) = - 1
   \<and> typeId (new_Metadata env k e (Some 0)) = - 1
   \<and> typeId (new_Metadata env k e t) \<noteq> 0
   \<and> typeId (fromMetadataHDNode env api node 0) = - 1
   \<and> typeId (fromMetadataHDNode env api node n) \<noteq> 0"
  by (simp add: new_Metadata_def fromMetadataHDNode_def Let_def split: option.split)

subsection \<open>Evaluating the small environment\<close>

text \<open>The equations that compute the encodings, the JSON text, the stand-ins and the script.\<close>

lemmas ref_codec_simps =
  ref_toString_base64_def ref_from_base64_def b64_char_def b64_alphabet_def b64_value_def
  List.map_filter_simps ref_toString_hex_def hex_char_def hex_value_def
  ref_from_utf8_def ref_toString_utf8_def char_of_eq_iff

lemmas ref_json_simps =
  ref_parse_def parse_number_def parse_nat_def digits_value_def is_digit_def
  quote_def show_int_def show_nat.simps dquote_def bslash_def

lemmas ref_crypto_simps =
  ref_sha256_def ref_sign_def ref_verify_def ref_encrypt_def ref_decrypt_def xor_key_def


lemma plain_record_fields:
  "address plain_record = ''1Meta''" "encKeyBuffer plain_record = None"
  "magicHash plain_record = None" "value' plain_record = None"
  "signKey plain_record = ''1Meta''" "sequence plain_record = []"
  "VERSION plain_record = 1" "typeId plain_record = 4"
  by (simp_all add: plain_record_def new_Metadata_def ref_env_def)

lemma toImmutable_a1:
  "toImmutable ref_env (JObj False [(''a'', JNum 1)]) = Inr (JObj True [(''a'', JNum 1)])"
  by (simp add: toImmutable_def parse_json_def ref_env_def ref_json_simps)




subsection \<open>fetch\<close>


lemma verifyResponse_unverified:
  "\<not> signature_verifies env addr e \<Longrightarrow> \<exists>err. verifyResponse env addr (Some e) = Inl err"
  by (auto simp add: signature_verifies_def verifyResponse_def Let_def split: option.splits)

lemma verifyResponse_Inr:
  "verifyResponse env addr (Some e) = Inr x \<Longrightarrow> signature_verifies env addr e"
  using verifyResponse_unverified [of env addr e] by auto


lemma fetch_job_null:
  "request env GET (address r) None w = (Inr None, w1) \<Longrightarrow>
   fetch_job env r w = (Inr JNull, r, w1, [Sent GET (address r) None])"
  by (simp add: fetch_job_def verifyResponse_def saveMagicHash_def extractResponse_def
      saveValue_def)



text \<open>
  C8. For a record with no chain hash and nothing pending, a GET that answers 404 makes
  fetch resolve with null: the job does not fail, the record is unchanged, its chain
  hash is still null and \<open>existsOnServer\<close> is false.
\<close>

theorem fetch_404_resolves_null:
  assumes fresh: "magicHash r = None"
    and idle: "sequence r = []"
    and got: "window_fetch env (fetch_options env GET (address r) None) w = (Resolved resp, w1)"
    and nf: "status resp = 404"
  shows "fetch_job env r w = (Inr JNull, r, w1, [Sent GET (address r) None])
    \<and> settle env (fetch r) w = ([Inr JNull], r, w1, [Sent GET (address r) None])
    \<and> magicHash r = None \<and> \<not> existsOnServer r"
proof -
  have req: "request env GET (address r) None w = (Inr None, w1)"
    using got nf by (simp add: request_def checkStatus_def)
  have job: "fetch_job env r w = (Inr JNull, r, w1, [Sent GET (address r) None])"
    by (rule fetch_job_null [OF req])
  have same: "(fetch r)\<lparr> sequence := [] \<rparr> = r"
    using idle by (simp add: fetch_def next_job_def)
  have "settle env (fetch r) w = ([Inr JNull], r, w1, [Sent GET (address r) None])"
    using idle job by (simp add: settle_def same) (simp add: fetch_def next_job_def)
  with job fresh show ?thesis by (simp add: existsOnServer_def)
qed

theorem fetch_404_resolves_null_witness:
  "magicHash plain_record = None \<and> sequence plain_record = []
   \<and> window_fetch ref_env (fetch_options ref_env GET (address plain_record) None) [Resolved not_found]
       = (Resolved not_found, [])
   \<and> status not_found = 404
   \<and> settle ref_env (fetch plain_record) [Resolved not_found]
       = ([Inr JNull], plain_record, [], [Sent GET ''1Meta'' None])
   \<and> \<not> existsOnServer plain_record"
proof -
  have got: "window_fetch ref_env (fetch_options ref_env GET (address plain_record) None)
      [Resolved not_found] = (Resolved not_found, [])"
    by (simp add: ref_env_def ref_fetch_def)
  have nf: "status not_found = 404" by (simp add: not_found_def)
  from fetch_404_resolves_null [OF plain_record_fields(3) plain_record_fields(6) got nf] got nf
  show ?thesis by (simp add: plain_record_fields)
qed

subsection \<open>create\<close>




subsection \<open>update\<close>

text \<open>
  C6. When the serialization of \<open>v\<close> is that of the value the record holds, update
  queues a job that sends nothing and signs nothing, changes neither the record nor the
  outside state, and settles as the freeze of \<open>v\<close> does (it resolves with the frozen
  snapshot of every value that survives the freeze); the queue has one more job and the
  chain hash is untouched. When the serializations differ, update is create.
\<close>

theorem update_same_is_noop_else_create:
  "(value' r = Some cur \<longrightarrow> JSON_stringify env v = JSON_stringify env cur \<longrightarrow>
      update env v r = Inr (next_job (ResolveJob v) r)
      \<and> sequence (next_job (ResolveJob v) r) = sequence r @ [ResolveJob v]
      \<and> magicHash (next_job (ResolveJob v) r) = magicHash r
      \<and> (\<forall>r1 w. run_job env (ResolveJob v) r1 w = (toImmutable env v, r1, w, [])))
   \<and> (Some (JSON_stringify env v) \<noteq> map_option (JSON_stringify env) (value' r) \<longrightarrow>
        update env v r = create env v r)"
  by (simp add: update_def next_job_def)

theorem update_same_is_noop_else_create_witness:
  "value' written_record = Some (JObj True [(''a'', JNum 1)])
   \<and> JSON_stringify ref_env (JObj False [(''a'', JNum 1)])
       = JSON_stringify ref_env (JObj True [(''a'', JNum 1)])
   \<and> update ref_env (JObj False [(''a'', JNum 1)]) written_record
       = Inr (next_job (ResolveJob (JObj False [(''a'', JNum 1)])) written_record)
   \<and> run_job ref_env (ResolveJob (JObj False [(''a'', JNum 1)])) written_record []
       = (Inr (JObj True [(''a'', JNum 1)]), written_record, [], [])
   \<and> Some (JSON_stringify ref_env (JNum 2)) \<noteq> map_option (JSON_stringify ref_env) (value' written_record)
   \<and> update ref_env (JNum 2) written_record = create ref_env (JNum 2) written_record"
proof -
  have v: "value' written_record = Some (JObj True [(''a'', JNum 1)])"
    by (simp add: written_record_def)
  have same: "JSON_stringify ref_env (JObj False [(''a'', JNum 1)])
       = JSON_stringify ref_env (JObj True [(''a'', JNum 1)])"
    by (simp add: ref_env_def)
  have differs: "Some (JSON_stringify ref_env (JNum 2))
       \<noteq> map_option (JSON_stringify ref_env) (value' written_record)"
    by (simp add: v) (simp add: ref_env_def ref_json_simps)
  from update_same_is_noop_else_create
      [of written_record "JObj True [(''a'', JNum 1)]" ref_env "JObj False [(''a'', JNum 1)]"]
    v same
  have a: "update ref_env (JObj False [(''a'', JNum 1)]) written_record
       = Inr (next_job (ResolveJob (JObj False [(''a'', JNum 1)])) written_record)"
    and b: "run_job ref_env (ResolveJob (JObj False [(''a'', JNum 1)])) written_record []
       = (toImmutable ref_env (JObj False [(''a'', JNum 1)]), written_record, [], [])"
    by blast+
  from update_same_is_noop_else_create [of written_record cur ref_env "JNum 2" for cur] differs
  have c: "update ref_env (JNum 2) written_record = create ref_env (JNum 2) written_record"
    by blast
  show ?thesis using v same differs a b c by (simp add: toImmutable_a1)
qed

subsection \<open>Two creates, back to back\<close>








subsection \<open>A job that fails\<close>





subsection \<open>Freezing\<close>

lemma thaw_Object_freeze: "thaw (Object_freeze a) = thaw a"
  by (cases a) simp_all

lemma toImmutable_round_trip:
  "toImmutable env v = Inr x \<Longrightarrow>
   \<exists>y. JSON_parse env (JSON_stringify env v) = Some y \<and> x = Object_freeze y \<and> thaw x = thaw y"
  by (cases "JSON_parse env (JSON_stringify env v)")
     (auto simp add: toImmutable_def parse_json_def thaw_Object_freeze)

text \<open>No assignment along a path succeeds on a deeply frozen value.\<close>

lemma deep_frozen_member:
  "list_all (\<lambda>(k, v). deep_frozen v) kvs \<Longrightarrow> map_of kvs k = Some c \<Longrightarrow> deep_frozen c"
  by (induction kvs) (auto split: if_splits)

lemma deep_frozen_not_assignable:
  "deep_frozen v \<Longrightarrow> assign ks x v \<noteq> Some (Inr y)"
proof (induction ks x v arbitrary: y rule: assign.induct)
  case (4 k k' ks x fr kvs)
  show ?case
  proof (cases "map_of kvs k")
    case None
    then show ?thesis by simp
  next
    case (Some c)
    with "4.prems" have "deep_frozen c" by (auto intro: deep_frozen_member)
    with "4.IH" [OF Some] have "assign (k' # ks) x c \<noteq> Some (Inr z)" for z by simp
    with Some show ?thesis by (auto split: option.splits sum.splits)
  qed
qed simp_all

text \<open>
  C7 on the code: the snapshot of \<open>{a: {b: 1}}\<close> is frozen at the top only. It is not
  deeply frozen: the assignment \<open>snapshot.a.b = 2\<close> succeeds and the snapshot then
  reads \<open>{a: {b: 2}}\<close>, while \<open>snapshot.a = 2\<close> throws.
\<close>

theorem toImmutable_freezes_top_only:
  "toImmutable ref_env (JObj False [(''a'', JObj False [(''b'', JNum 1)])])
     = Inr (JObj True [(''a'', JObj False [(''b'', JNum 1)])])
   \<and> \<not> deep_frozen (JObj True [(''a'', JObj False [(''b'', JNum 1)])])
   \<and> assign [''a'', ''b''] (JNum 2) (JObj True [(''a'', JObj False [(''b'', JNum 1)])])
     = Some (Inr (JObj True [(''a'', JObj False [(''b'', JNum 2)])]))
   \<and> assign [''a''] (JNum 2) (JObj True [(''a'', JObj False [(''b'', JNum 1)])])
     = Some (Inl TypeError)"
  by (simp add: toImmutable_def parse_json_def ref_env_def ref_json_simps set_prop_def)

subsection \<open>Encoding and decoding\<close>

text \<open>
  C9 (as the code has it). For a value that JSON represents, the payload that create
  encodes decodes to the value again under the same key: without a key when the Buffer
  encodings invert each other on its text, with a key when the cipher decrypts what it
  encrypted and writes canonical base64. Decoding under any key makes no test of the key:
  it fails exactly when the cipher throws or the decrypted text is not JSON, and gives
  whatever that text parses to otherwise.
\<close>

theorem decode_inverts_encode_same_key:
  assumes json: "JSON_parse env (JSON_stringify env v) = Some (thaw v)"
  shows
   "(from_base64 env (toString_base64 env (from_utf8 env (JSON_stringify env v)))
        = from_utf8 env (JSON_stringify env v) \<longrightarrow>
      toString_utf8 env (from_utf8 env (JSON_stringify env v)) = JSON_stringify env v \<longrightarrow>
      (\<exists>enc. encPayloadBuffer env None v w = (Inr enc, w)
         \<and> extractResponse env None
             (Some \<lparr> payload = Some (toString_base64 env enc), signature = sg,
                     prev_magic_hash = pm \<rparr>) = Inr (thaw v)))
    \<and> (\<forall>c w1. encryptDataWithKey env (JSON_stringify env v) k w = (Some c, w1) \<longrightarrow>
          toString_base64 env (from_base64 env c) = c \<longrightarrow>
          decryptDataWithKey env c k = Some (JSON_stringify env v) \<longrightarrow>
          (\<exists>enc. encPayloadBuffer env (Some k) v w = (Inr enc, w1)
             \<and> extractResponse env (Some k)
                 (Some \<lparr> payload = Some (toString_base64 env enc), signature = sg,
                         prev_magic_hash = pm \<rparr>) = Inr (thaw v)))
    \<and> extractResponse env (Some k')
         (Some \<lparr> payload = Some c', signature = sg, prev_magic_hash = pm \<rparr>)
       = (case decryptDataWithKey env c' k' of
            None \<Rightarrow> Inl LibraryError
          | Some s \<Rightarrow> (case JSON_parse env s of None \<Rightarrow> Inl SyntaxError | Some x \<Rightarrow> Inr x))"
  using json
  by (simp add: encPayloadBuffer_def extractResponse_def parse_json_def split: option.split)

theorem decode_inverts_encode_same_key_witness:
  "JSON_parse ref_env (JSON_stringify ref_env (JObj True [(''a'', JNum 1)]))
     = Some (thaw (JObj True [(''a'', JNum 1)]))
   \<and> (\<exists>enc. encPayloadBuffer ref_env None (JObj True [(''a'', JNum 1)]) []
                = (Inr enc, ([] :: fetch_outcome list))
         \<and> extractResponse ref_env None
             (Some \<lparr> payload = Some (toString_base64 ref_env enc), signature = None,
                     prev_magic_hash = None \<rparr>) = Inr (thaw (JObj True [(''a'', JNum 1)])))
   \<and> (\<exists>enc. encPayloadBuffer ref_env (Some [7]) (JObj True [(''a'', JNum 1)]) []
                = (Inr enc, ([] :: fetch_outcome list))
         \<and> extractResponse ref_env (Some [7])
             (Some \<lparr> payload = Some (toString_base64 ref_env enc), signature = None,
                     prev_magic_hash = None \<rparr>) = Inr (thaw (JObj True [(''a'', JNum 1)])))"
proof -
  let ?v = "JObj True [(''a'', JNum 1)]"
  have json: "JSON_parse ref_env (JSON_stringify ref_env ?v) = Some (thaw ?v)"
    by (simp add: ref_env_def ref_json_simps)
  have b64: "from_base64 ref_env (toString_base64 ref_env (from_utf8 ref_env (JSON_stringify ref_env ?v)))
        = from_utf8 ref_env (JSON_stringify ref_env ?v)"
    by (simp add: ref_env_def ref_json_simps ref_codec_simps)
  have utf8: "toString_utf8 ref_env (from_utf8 ref_env (JSON_stringify ref_env ?v))
        = JSON_stringify ref_env ?v"
    by (simp add: ref_env_def ref_json_simps ref_codec_simps)
  have enc: "encryptDataWithKey ref_env (JSON_stringify ref_env ?v) [7] []
        = (Some ''fCVmJT02eg=='', ([] :: fetch_outcome list))"
    by (simp add: ref_env_def ref_json_simps ref_codec_simps ref_crypto_simps)
  have canon: "toString_base64 ref_env (from_base64 ref_env ''fCVmJT02eg=='') = ''fCVmJT02eg==''"
    by (simp add: ref_env_def ref_codec_simps)
  have dec: "decryptDataWithKey ref_env ''fCVmJT02eg=='' [7] = Some (JSON_stringify ref_env ?v)"
    by (simp add: ref_env_def ref_json_simps ref_codec_simps ref_crypto_simps)
  note t = decode_inverts_encode_same_key
      [OF json, of "[] :: fetch_outcome list" None None "[7]" "[7]" "[]"]
  from t b64 utf8 have plain: "\<exists>enc. encPayloadBuffer ref_env None ?v []
                = (Inr enc, ([] :: fetch_outcome list))
         \<and> extractResponse ref_env None
             (Some \<lparr> payload = Some (toString_base64 ref_env enc), signature = None,
                     prev_magic_hash = None \<rparr>) = Inr (thaw ?v)"
    by blast
  from t enc canon dec have keyed: "\<exists>enc. encPayloadBuffer ref_env (Some [7]) ?v []
                = (Inr enc, ([] :: fetch_outcome list))
         \<and> extractResponse ref_env (Some [7])
             (Some \<lparr> payload = Some (toString_base64 ref_env enc), signature = None,
                     prev_magic_hash = None \<rparr>) = Inr (thaw ?v)"
    by blast
  from json plain keyed show ?thesis by blast
qed

text \<open>
  C9 as the specification states it, that decoding with a different key fails, is not
  what \<^verbatim>\<open>extractResponse\<close> ensures. With the exclusive-or cipher of the small
  environment, the payload of the value 1 under the key 00 decodes under the key 03 to
  the value 2.
\<close>

theorem decode_other_key_counterexample:
  "encPayloadBuffer ref_env (Some [0]) (JNum 1) [] = (Inr [0x31], [])
   \<and> toString_base64 ref_env [0x31] = ''MQ==''
   \<and> extractResponse ref_env (Some [0])
        (Some \<lparr> payload = Some ''MQ=='', signature = None, prev_magic_hash = None \<rparr>)
      = Inr (JNum 1)
   \<and> extractResponse ref_env (Some [3])
        (Some \<lparr> payload = Some ''MQ=='', signature = None, prev_magic_hash = None \<rparr>)
      = Inr (JNum 2)"
  by (simp add: encPayloadBuffer_def extractResponse_def parse_json_def ref_env_def
      ref_json_simps ref_codec_simps ref_crypto_simps)

end
